theory Spec2Isabelle
  imports Main "HOL-Library.Finite_Map"
begin

section \<open>Values, objects and the world\<close>

text \<open>
  The raw values a backing dictionary holds are the values JSON can carry. Floating-point
  numbers are left out: no operation of \<^verbatim>\<open>project.py\<close> inspects one. A Python dictionary
  is a finite map with unique keys; its insertion order is not modelled, since no operation
  of the module depends on it.
\<close>

datatype pyval =
    PNone
  | PBool bool
  | PInt int
  | PStr string
  | PList "pyval list"
  | PDict "(string, pyval) fmap"

type_synonym pydict = "(string, pyval) fmap"

type_synonym proj_id = nat

type_synonym item_id = nat

text \<open>
  Objects are mutable and shared by reference, so they live in a store indexed by object
  identities. A slot connected to a \<^verbatim>\<open>changed\<close> signal is either the bound method
  \<^verbatim>\<open>check_change\<close> of an item (the only connection \<^verbatim>\<open>project.py\<close> makes) or
  some other callable of the surrounding program. An object assigned to an attribute of a
  project is an item, a plain value, or the project's own backing dictionary
  (\<^verbatim>\<open>root.value\<close>, by reference).
\<close>

datatype listener = CheckChange item_id | Slot nat

datatype attr = ItemRef item_id | Plain pyval | OwnValue

text \<open>
  \<^verbatim>\<open>AbstractProject\<close>: \<open>p_value\<close> is the dictionary memoised by \<^verbatim>\<open>get_value\<close>
  (\<^verbatim>\<open>self._create(dict)\<close>, empty on first access), \<open>p_children\<close> the list memoised by
  \<^verbatim>\<open>children\<close>, \<open>p_subscribers\<close> the slots connected to \<^verbatim>\<open>self.changed\<close>,
  \<open>p_attrs\<close> the instance attributes bound through \<^verbatim>\<open>__setattr__\<close>, and
  \<open>p_path\<close>, \<open>p_name\<close> what the properties \<^verbatim>\<open>path\<close> and \<^verbatim>\<open>name\<close> return
  (\<^verbatim>\<open>None\<close> in \<^verbatim>\<open>SaveInterface\<close> itself, a string where a subclass overrides them).
\<close>

record project =
  p_value :: pydict
  p_children :: "item_id list"
  p_subscribers :: "listener list"
  p_attrs :: "string \<rightharpoonup> attr"
  p_path :: "string option"
  p_name :: "string option"

text \<open>
  \<^verbatim>\<open>AbstractProjectItem\<close>: \<open>i_name\<close> is memoised by \<^verbatim>\<open>self._create(str)\<close> (the empty
  string until assigned) and \<open>i_self_storage\<close> by \<^verbatim>\<open>self._create(lambda: None)\<close>.
\<close>

record item =
  i_parent :: "proj_id option"
  i_name :: string
  i_self_storage :: pyval

datatype file_content = NotJson | Json pyval

datatype fs_entry = Directory | File file_content

text \<open>
  The trace records what the program does to its listeners: \<open>Emit p d\<close> is one call of
  \<^verbatim>\<open>changed.emit\<close> on project \<open>p\<close> with the dictionary contents \<open>d\<close> as payload,
  \<open>Call l a\<close> one invocation of listener \<open>l\<close> with argument \<open>a\<close>
  (\<open>None\<close> when it is called without an argument).
\<close>

datatype event = Emit proj_id pydict | Call listener "pydict option"

record world =
  projects :: "proj_id \<Rightarrow> project"
  items :: "item_id \<Rightarrow> item"
  files :: "string \<rightharpoonup> fs_entry"
  trace :: "event list"

datatype error =
    FileNotFoundError
  | IsADirectoryError
  | AssertionError
  | ValueError
  | TypeError
  | AttributeError
  | NotADirectoryError

section \<open>The change notification channel\<close>

text \<open>
  Modelled from the spec: the signal primitive behind \<^verbatim>\<open>changed\<close>
  (\<^verbatim>\<open>ChangedInterface\<close>, imported from the package and not part of \<^verbatim>\<open>project.py\<close>).
  \<^verbatim>\<open>connect\<close> subscribes a listener; \<^verbatim>\<open>emit(value)\<close> synchronously invokes every
  subscriber in subscription order with the emitted value.
\<close>

definition connect :: "world \<Rightarrow> proj_id \<Rightarrow> listener \<Rightarrow> world" where
  "connect w p l =
     w\<lparr>projects := (projects w)
          (p := (projects w p)\<lparr>p_subscribers := p_subscribers (projects w p) @ [l]\<rparr>)\<rparr>"

definition emit :: "world \<Rightarrow> proj_id \<Rightarrow> world" where
  "emit w p =
     (let d = p_value (projects w p)
      in w\<lparr>trace := trace w @ Emit p d # map (\<lambda>l. Call l (Some d)) (p_subscribers (projects w p))\<rparr>)"

text \<open>
  Modelled from the spec: \<^verbatim>\<open>check_change\<close> (\<^verbatim>\<open>ChangedInterface\<close>, not part of
  \<^verbatim>\<open>project.py\<close>) lets an item detect whether its own slot changed; it reads and does not
  write the backing dictionary. The direct call in \<^verbatim>\<open>AbstractProjectItem.set_value\<close> is
  recorded in the trace.
\<close>

definition check_change :: "world \<Rightarrow> item_id \<Rightarrow> world" where
  "check_change w i = w\<lparr>trace := trace w @ [Call (CheckChange i) None]\<rparr>"

section \<open>AbstractProject\<close>

definition put_value :: "world \<Rightarrow> proj_id \<Rightarrow> pydict \<Rightarrow> world" where
  "put_value w p d = w\<lparr>projects := (projects w)(p := (projects w p)\<lparr>p_value := d\<rparr>)\<rparr>"

definition project_get_value :: "world \<Rightarrow> proj_id \<Rightarrow> pydict" where
  "project_get_value w p = p_value (projects w p)"

text \<open>
  The argument of \<^verbatim>\<open>set_value\<close> is a dictionary object: either one distinct from the
  backing dictionary, given by its contents, or the backing dictionary itself
  (\<^verbatim>\<open>root.value = root.value\<close>), which \<^verbatim>\<open>clear()\<close> empties before \<^verbatim>\<open>update\<close> reads it.
\<close>

datatype dict_arg = Fresh pydict | Own

definition project_set_value :: "world \<Rightarrow> proj_id \<Rightarrow> dict_arg \<Rightarrow> world" where
  "project_set_value w p a =
     (let w1 = put_value w p fmempty;
          src = (case a of Fresh d \<Rightarrow> d | Own \<Rightarrow> project_get_value w1 p);
          w2 = put_value w1 p (project_get_value w1 p ++\<^sub>f src)
      in emit w2 p)"

definition get_property :: "world \<Rightarrow> proj_id \<Rightarrow> string \<Rightarrow> pyval" where
  "get_property w p n =
     (case fmlookup (project_get_value w p) n of None \<Rightarrow> PNone | Some v \<Rightarrow> v)"

definition set_property :: "world \<Rightarrow> proj_id \<Rightarrow> string \<Rightarrow> pyval \<Rightarrow> world" where
  "set_property w p n v =
     emit (put_value w p (project_get_value w p ++\<^sub>f fmupd n v fmempty)) p"

section \<open>AbstractProjectItem\<close>

definition item_init :: "world \<Rightarrow> item_id \<Rightarrow> proj_id option \<Rightarrow> world" where
  "item_init w i par =
     (let w1 = w\<lparr>items := (items w)
                   (i := \<lparr>i_parent = par, i_name = [], i_self_storage = PNone\<rparr>)\<rparr>
      in case par of
           None \<Rightarrow> w1
         | Some p \<Rightarrow>
             connect
               (w1\<lparr>projects := (projects w1)
                     (p := (projects w1 p)\<lparr>p_children := p_children (projects w1 p) @ [i]\<rparr>)\<rparr>)
               p (CheckChange i))"

definition item_get_value :: "world \<Rightarrow> item_id \<Rightarrow> pyval" where
  "item_get_value w i =
     (case i_parent (items w i) of
        Some p \<Rightarrow> get_property w p (i_name (items w i))
      | None \<Rightarrow> i_self_storage (items w i))"

definition item_set_value :: "world \<Rightarrow> item_id \<Rightarrow> pyval \<Rightarrow> world" where
  "item_set_value w i v =
     (case i_parent (items w i) of
        Some p \<Rightarrow> set_property w p (i_name (items w i)) v
      | None \<Rightarrow>
          check_change (w\<lparr>items := (items w)(i := (items w i)\<lparr>i_self_storage := v\<rparr>)\<rparr>) i)"

text \<open>
  The properties the classes of \<^verbatim>\<open>project.py\<close> give a project and that have no
  setter: \<^verbatim>\<open>path\<close>, \<^verbatim>\<open>name\<close>, \<^verbatim>\<open>filename\<close>, \<^verbatim>\<open>is_existing\<close> of
  \<^verbatim>\<open>SaveInterface\<close> and \<^verbatim>\<open>children\<close> of \<^verbatim>\<open>AbstractProject\<close>. Assigning to one of
  them raises \<^verbatim>\<open>AttributeError\<close>.
\<close>

definition readonly_properties :: "string list" where
  "readonly_properties = [''path'', ''name'', ''filename'', ''is_existing'', ''children'']"

text \<open>
  Modelled from the spec: \<^verbatim>\<open>changed\<close> (\<^verbatim>\<open>ChangedInterface\<close>, not part of
  \<^verbatim>\<open>project.py\<close>) is the channel the root owns, provided by the class like
  \<^verbatim>\<open>children\<close>, and not an attribute that can be rebound.
\<close>

definition inherited_properties :: "string list" where
  "inherited_properties = [''changed'']"

text \<open>
  Modelled from the spec: the \<^verbatim>\<open>value\<close> property of \<^verbatim>\<open>ValueModel\<close> (not part of
  \<^verbatim>\<open>project.py\<close>). Reading it calls \<^verbatim>\<open>get_value\<close> and assigning to it calls
  \<^verbatim>\<open>set_value\<close>, as the property of \<^verbatim>\<open>EnumValueModel\<close> does.
\<close>

definition value_setter :: "world \<Rightarrow> proj_id \<Rightarrow> dict_arg \<Rightarrow> world" where
  "value_setter w p a = project_set_value w p a"

text \<open>
  Two behaviours of the Python runtime are parameters. \<open>dict_update a\<close> is what
  \<^verbatim>\<open>dict.update\<close> does to an empty dictionary with an object \<open>a\<close> that is not a
  dictionary: the pairs it inserts and the exception it raises, if any (for \<^verbatim>\<open>None\<close> or
  a number, no pair and \<^verbatim>\<open>TypeError\<close>). \<open>dict_replace pr a\<close> is the state of a project
  after its instance dictionary has been replaced by the dictionary \<open>a\<close>
  (\<^verbatim>\<open>root.__dict__ = a\<close>), which depends on where the \<^verbatim>\<open>_create\<close> helper (not part of
  \<^verbatim>\<open>project.py\<close>) keeps what it memoises.
\<close>

record python_runtime =
  dict_update :: "attr \<Rightarrow> error option \<times> pydict"
  dict_replace :: "project \<Rightarrow> attr \<Rightarrow> project"

text \<open>
  \<^verbatim>\<open>set_value\<close> reached with an object that is not a dictionary: \<^verbatim>\<open>clear()\<close> has
  emptied the backing dictionary when \<^verbatim>\<open>update(value)\<close> runs; when that raises,
  \<^verbatim>\<open>emit\<close> is not reached.
\<close>

definition set_value_other ::
  "(attr \<Rightarrow> error option \<times> pydict) \<Rightarrow> world \<Rightarrow> proj_id \<Rightarrow> attr \<Rightarrow> error option \<times> world" where
  "set_value_other upd w p a =
     (let w1 = put_value w p fmempty;
          w2 = put_value w1 p (project_get_value w1 p ++\<^sub>f snd (upd a))
      in case fst (upd a) of
           Some e \<Rightarrow> (Some e, w2)
         | None \<Rightarrow> (None, emit w2 p))"

fun value_assign ::
  "(attr \<Rightarrow> error option \<times> pydict) \<Rightarrow> world \<Rightarrow> proj_id \<Rightarrow> attr \<Rightarrow> error option \<times> world" where
  "value_assign upd w p (Plain (PDict d)) = (None, value_setter w p (Fresh d))"
| "value_assign upd w p OwnValue = (None, value_setter w p Own)"
| "value_assign upd w p a = set_value_other upd w p a"

fun is_dict :: "attr \<Rightarrow> bool" where
  "is_dict (Plain (PDict d)) = True"
| "is_dict OwnValue = True"
| "is_dict a = False"

text \<open>
  The attributes every Python object has and that are not plain instance attributes:
  \<^verbatim>\<open>__class__\<close> accepts only a class, \<^verbatim>\<open>__dict__\<close> only a dictionary, and
  \<^verbatim>\<open>__weakref__\<close> is not writable.
\<close>

definition special_names :: "string list" where
  "special_names = [''__class__'', ''__dict__'', ''__weakref__'']"

text \<open>
  The methods called on a project in \<^verbatim>\<open>project.py\<close>. An instance attribute of such a
  name is bound like any other, and from then on hides the method: a later call of that name
  on the project is a call of the bound object. The operations above do not follow this, so
  statements about what happens after an assignment leave these names out.
\<close>

definition method_names :: "string list" where
  "method_names =
     [''load'', ''save'', ''get_value'', ''set_value'', ''get_property'', ''set_property'',
      ''_create'']"

text \<open>
  \<^verbatim>\<open>AbstractProject.__setattr__\<close>: an item bound as an attribute is first given the
  attribute's name (\<^verbatim>\<open>value.name = key\<close>, whose setter memoises the string with
  \<^verbatim>\<open>assign\<close>), then \<^verbatim>\<open>super().__setattr__(key, value)\<close> runs. That call raises
  \<^verbatim>\<open>AttributeError\<close> when \<open>key\<close> names a property without a setter, goes through the
  setter when \<open>key\<close> is \<^verbatim>\<open>value\<close>, treats the special attributes of every object
  as the object model does, and binds an instance attribute otherwise. No value of type
  \<open>attr\<close> is a class. The result is the exception raised, if any, and the world left
  behind.
\<close>

definition assign_name :: "world \<Rightarrow> attr \<Rightarrow> string \<Rightarrow> world" where
  "assign_name w a key =
     (case a of
        ItemRef i \<Rightarrow> w\<lparr>items := (items w)(i := (items w i)\<lparr>i_name := key\<rparr>)\<rparr>
      | _ \<Rightarrow> w)"

definition super_setattr ::
  "python_runtime \<Rightarrow> world \<Rightarrow> proj_id \<Rightarrow> string \<Rightarrow> attr \<Rightarrow> error option \<times> world" where
  "super_setattr rt w p key a =
     (if key \<in> set readonly_properties \<or> key \<in> set inherited_properties
           \<or> key = ''__weakref__''
      then (Some AttributeError, w)
      else if key = ''__class__'' then (Some TypeError, w)
      else if key = ''__dict__''
      then (if is_dict a
            then (None, w\<lparr>projects := (projects w)(p := dict_replace rt (projects w p) a)\<rparr>)
            else (Some TypeError, w))
      else if key = ''value'' then value_assign (dict_update rt) w p a
      else (None,
            w\<lparr>projects := (projects w)
                 (p := (projects w p)\<lparr>p_attrs := (p_attrs (projects w p))(key \<mapsto> a)\<rparr>)\<rparr>))"

definition project_setattr ::
  "python_runtime \<Rightarrow> world \<Rightarrow> proj_id \<Rightarrow> string \<Rightarrow> attr \<Rightarrow> error option \<times> world" where
  "project_setattr rt w p key a = super_setattr rt (assign_name w a key) p key a"

section \<open>SaveInterface\<close>

text \<open>
  \<^verbatim>\<open>os.path.join\<close> of the standard library, in its POSIX form for two components; it
  raises \<^verbatim>\<open>TypeError\<close> on \<^verbatim>\<open>None\<close>, which is what \<^verbatim>\<open>path\<close> and \<^verbatim>\<open>name\<close>
  return unless a subclass overrides them.
\<close>

definition os_path_join :: "string \<Rightarrow> string \<Rightarrow> string" where
  "os_path_join a b =
     (if (case b of [] \<Rightarrow> False | c # _ \<Rightarrow> c = CHR ''/'') then b
      else if a = [] \<or> last a = CHR ''/'' then a @ b
      else a @ ''/'' @ b)"

definition filename :: "project \<Rightarrow> error + string" where
  "filename pr =
     (case p_path pr of
        None \<Rightarrow> Inl TypeError
      | Some a \<Rightarrow> (case p_name pr of None \<Rightarrow> Inl TypeError | Some b \<Rightarrow> Inr (os_path_join a b)))"

definition is_existing :: "world \<Rightarrow> proj_id \<Rightarrow> error + bool" where
  "is_existing w p =
     (case filename (projects w p) of Inl e \<Rightarrow> Inl e | Inr f \<Rightarrow> Inr (files w f \<noteq> None))"

text \<open>
  \<^verbatim>\<open>load\<close> returns the exception it raises, if any, together with the world it leaves
  behind. \<^verbatim>\<open>check_key\<close> and \<^verbatim>\<open>check_value\<close> are strings, as annotated. A file whose
  content does not decode or parse makes \<^verbatim>\<open>json.load\<close> raise a \<^verbatim>\<open>ValueError\<close>; the two
  \<^verbatim>\<open>assert\<close> statements raise \<^verbatim>\<open>AssertionError\<close>, the error the spec calls
  InvalidFormat; both are re-raised unchanged by the handlers.
\<close>

definition load :: "world \<Rightarrow> proj_id \<Rightarrow> string \<Rightarrow> string \<Rightarrow> error option \<times> world" where
  "load w p check_key check_value =
     (case filename (projects w p) of
        Inl e \<Rightarrow> (Some e, w)
      | Inr f \<Rightarrow>
          (case files w f of
             None \<Rightarrow> (Some FileNotFoundError, w)
           | Some Directory \<Rightarrow> (Some IsADirectoryError, w)
           | Some (File NotJson) \<Rightarrow> (Some ValueError, w)
           | Some (File (Json obj)) \<Rightarrow>
               (case obj of
                  PDict d \<Rightarrow>
                    if fmlookup d check_key = Some (PStr check_value)
                    then (None, value_setter w p (Fresh d))
                    else (Some AssertionError, w)
                | _ \<Rightarrow> (Some AssertionError, w))))"

text \<open>
  \<^verbatim>\<open>os.path.dirname\<close> of the standard library, in its POSIX form: the part of the path
  up to its last slash, without trailing slashes unless it consists of slashes only.
\<close>

definition os_path_dirname :: "string \<Rightarrow> string" where
  "os_path_dirname f =
     (let head = rev (dropWhile (\<lambda>c. c \<noteq> CHR ''/'') (rev f))
      in if head \<noteq> [] \<and> \<not> list_all (\<lambda>c. c = CHR ''/'') head
         then rev (dropWhile (\<lambda>c. c = CHR ''/'') (rev head))
         else head)"

text \<open>
  \<^verbatim>\<open>save\<close>: \<^verbatim>\<open>codecs.open(self.filename, 'w')\<close> raises \<^verbatim>\<open>FileNotFoundError\<close> when the
  directory that is to hold the file does not exist, \<^verbatim>\<open>NotADirectoryError\<close> when it is a
  file and \<^verbatim>\<open>IsADirectoryError\<close> when the target itself is a directory; the current
  directory (an empty directory part) and the root always exist. Otherwise the file is
  created or overwritten with the serialised backing dictionary. A write cut short is not
  modelled.
\<close>

definition save :: "world \<Rightarrow> proj_id \<Rightarrow> error option \<times> world" where
  "save w p =
     (case filename (projects w p) of
        Inl e \<Rightarrow> (Some e, w)
      | Inr f \<Rightarrow>
          (let dir = os_path_dirname f
           in if dir \<noteq> [] \<and> \<not> list_all (\<lambda>c. c = CHR ''/'') dir
                 \<and> files w dir \<noteq> Some Directory
              then (case files w dir of
                      None \<Rightarrow> (Some FileNotFoundError, w)
                    | Some _ \<Rightarrow> (Some NotADirectoryError, w))
              else (case files w f of
                      Some Directory \<Rightarrow> (Some IsADirectoryError, w)
                    | _ \<Rightarrow>
                        (None,
                         w\<lparr>files := (files w)
                              (f \<mapsto> File (Json (PDict (project_get_value w p))))\<rparr>))))"

section \<open>Enum and EnumItem\<close>

text \<open>
  A member of an \<^verbatim>\<open>Enum\<close> subclass has a name and an associated string; the class is the
  list of its members in definition order, which is the order \<^verbatim>\<open>for s in cls\<close> visits.
\<close>

record member =
  m_name :: string
  m_value :: string

fun get_values_loop :: "member list \<Rightarrow> string list \<Rightarrow> string list" where
  "get_values_loop [] res = res"
| "get_values_loop (s # ss) res = get_values_loop ss (res @ [m_value s])"

definition get_values_list :: "member list \<Rightarrow> string list" where
  "get_values_list cls = get_values_loop cls []"

text \<open>
  \<^verbatim>\<open>get_key_by_value\<close> returns a member or the caller's \<^verbatim>\<open>default_value\<close>, an object
  of any type.
\<close>

datatype 'd lookup = Member member | Default 'd

fun get_key_by_value :: "member list \<Rightarrow> string \<Rightarrow> 'd \<Rightarrow> 'd lookup" where
  "get_key_by_value [] v default_value = Default default_value"
| "get_key_by_value (s # ss) v default_value =
     (if m_value s = v then Member s else get_key_by_value ss v default_value)"

definition enum_eq :: "member \<Rightarrow> string \<Rightarrow> bool" where
  "enum_eq self s = (m_name self = s)"

text \<open>
  \<^verbatim>\<open>EnumItem.EnumProperty.get_value\<close>: \<open>enum\<close> is the class the item was built with,
  \<^verbatim>\<open>None\<close> when \<^verbatim>\<open>EnumItem\<close> was given none, in which case the method call on it
  raises \<^verbatim>\<open>AttributeError\<close>; \<open>text\<close> is what \<^verbatim>\<open>self.parent.get_string()\<close> returns
  (\<^verbatim>\<open>StringItemInterface\<close>, not part of \<^verbatim>\<open>project.py\<close>). The call passes no
  \<^verbatim>\<open>default_value\<close>, so the default is \<^verbatim>\<open>None\<close>.
\<close>

definition EnumProperty_get_value :: "member list option \<Rightarrow> string \<Rightarrow> error + pyval lookup" where
  "EnumProperty_get_value enum text =
     (case enum of
        None \<Rightarrow> Inl AttributeError
      | Some cls \<Rightarrow> Inr (get_key_by_value cls text PNone))"

definition EnumProperty_set_value :: "world \<Rightarrow> item_id \<Rightarrow> member \<Rightarrow> world" where
  "EnumProperty_set_value w parent v = item_set_value w parent (PStr (m_value v))"

section \<open>TimePointItem\<close>

text \<open>
  \<^verbatim>\<open>TimePointItem\<close> adds \<^verbatim>\<open>t_format\<close> and the property \<^verbatim>\<open>time\<close> to
  \<^verbatim>\<open>StringProjectItem\<close>; its \<^verbatim>\<open>get_value\<close> and \<^verbatim>\<open>set_value\<close> are the inherited
  ones of \<^verbatim>\<open>AbstractProjectItem\<close>. \<^verbatim>\<open>time\<close> creates a \<^verbatim>\<open>TimePointProperty\<close> from
  the item and its \<^verbatim>\<open>t_format\<close>.
\<close>

record time_point_property =
  tp_parent :: item_id
  tp_format :: string

definition TimePointItem_time :: "item_id \<Rightarrow> string \<Rightarrow> time_point_property" where
  "TimePointItem_time self t_format = \<lparr>tp_parent = self, tp_format = t_format\<rparr>"

text \<open>
  Modelled from the spec: assigning to the \<^verbatim>\<open>value\<close> property of \<^verbatim>\<open>StringProperty\<close>
  (not part of \<^verbatim>\<open>project.py\<close>) stores the string through the \<^verbatim>\<open>set_value\<close> of the
  item the property belongs to, as \<^verbatim>\<open>EnumProperty.set_value\<close> does.
\<close>

definition StringProperty_set_value :: "world \<Rightarrow> time_point_property \<Rightarrow> string \<Rightarrow> world" where
  "StringProperty_set_value w prop s = item_set_value w (tp_parent prop) (PStr s)"

text \<open>
  \<^verbatim>\<open>TimePointProperty.update\<close>. The clock is a parameter: \<open>strftime fmt\<close> is what
  \<^verbatim>\<open>time.strftime(fmt)\<close> returns at the moment of the call.
\<close>

definition TimePointProperty_update ::
  "(string \<Rightarrow> string) \<Rightarrow> world \<Rightarrow> time_point_property \<Rightarrow> world" where
  "TimePointProperty_update strftime w prop =
     StringProperty_set_value w prop (strftime (tp_format prop))"

section \<open>Sequences of operations and traces\<close>

datatype op =
    SetProperty string pyval
  | GetProperty string
  | GetValue
  | SetValue dict_arg
  | Load string string
  | Save
  | Setattr string attr
  | ItemInit item_id "proj_id option"
  | ItemSetValue item_id pyval
  | ItemGetValue item_id

fun step ::
  "python_runtime \<Rightarrow> proj_id \<Rightarrow> world \<Rightarrow> op \<Rightarrow> world" where
  "step rt p w (SetProperty n v) = set_property w p n v"
| "step rt p w (GetProperty n) = w"
| "step rt p w GetValue = w"
| "step rt p w (SetValue a) = project_set_value w p a"
| "step rt p w (Load k v) = snd (load w p k v)"
| "step rt p w Save = snd (save w p)"
| "step rt p w (Setattr key a) = snd (project_setattr rt w p key a)"
| "step rt p w (ItemInit i par) = item_init w i par"
| "step rt p w (ItemSetValue i v) = item_set_value w i v"
| "step rt p w (ItemGetValue i) = w"

fun run ::
  "python_runtime \<Rightarrow> proj_id \<Rightarrow> world \<Rightarrow> op list \<Rightarrow> world" where
  "run rt p w [] = w"
| "run rt p w (x # xs) = run rt p (step rt p w x) xs"

fun property_op :: "op \<Rightarrow> bool" where
  "property_op (SetProperty n v) = True"
| "property_op (GetProperty n) = True"
| "property_op x = False"

text \<open>
  The operations that reach \<^verbatim>\<open>set_value\<close>: the call itself, a \<^verbatim>\<open>load\<close>, and an
  assignment to the attribute \<^verbatim>\<open>value\<close>.
\<close>

fun bulk_op :: "op \<Rightarrow> bool" where
  "bulk_op (SetValue a) = True"
| "bulk_op (Load k v) = True"
| "bulk_op (Setattr key a) = (key = ''value'')"
| "bulk_op x = False"

text \<open>
  The assignments after which the operations are no longer those of the class: one that
  hides a method, or one that replaces the instance dictionary.
\<close>

fun rebinds_method :: "op \<Rightarrow> bool" where
  "rebinds_method (Setattr key a) = (key \<in> set method_names \<or> key = ''__dict__'')"
| "rebinds_method x = False"

fun last_write :: "string \<Rightarrow> op list \<Rightarrow> pyval option" where
  "last_write k [] = None"
| "last_write k (SetProperty n v # xs) =
     (case last_write k xs of Some v' \<Rightarrow> Some v' | None \<Rightarrow> if n = k then Some v else None)"
| "last_write k (x # xs) = last_write k xs"

fun emits :: "event list \<Rightarrow> (proj_id \<times> pydict) list" where
  "emits [] = []"
| "emits (Emit p d # es) = (p, d) # emits es"
| "emits (Call l a # es) = emits es"

fun calls :: "event list \<Rightarrow> (listener \<times> pydict option) list" where
  "calls [] = []"
| "calls (Emit p d # es) = calls es"
| "calls (Call l a # es) = (l, a) # calls es"

section \<open>Initial objects\<close>

definition new_project :: "string option \<Rightarrow> string option \<Rightarrow> project" where
  "new_project a b =
     \<lparr>p_value = fmempty, p_children = [], p_subscribers = [], p_attrs = Map.empty,
      p_path = a, p_name = b\<rparr>"

definition new_item :: item where
  "new_item = \<lparr>i_parent = None, i_name = [], i_self_storage = PNone\<rparr>"

definition initial_world :: "(string \<rightharpoonup> fs_entry) \<Rightarrow> world" where
  "initial_world fs =
     \<lparr>projects = (\<lambda>_. new_project (Some ''conf'') (Some ''project.json'')),
      items = (\<lambda>_. new_item), files = fs, trace = []\<rparr>"

text \<open>A clock that reads noon on 3 November 2026, whatever the format.\<close>

definition example_clock :: "string \<Rightarrow> string" where
  "example_clock fmt = ''2026-11-03 12:00:00''"

text \<open>
  A world holding one item, attached to project 0 and bound as its attribute \<open>stamp\<close>.
\<close>

text \<open>
  A runtime whose \<^verbatim>\<open>dict.update\<close> rejects every object that is not a dictionary, as
  it does \<^verbatim>\<open>None\<close> and numbers, and where replacing the instance dictionary leaves the
  memoised objects alone and drops the bound attributes.
\<close>

definition example_runtime :: python_runtime where
  "example_runtime =
     \<lparr>dict_update = (\<lambda>a. (Some TypeError, fmempty)),
      dict_replace = (\<lambda>pr a. pr\<lparr>p_attrs := Map.empty\<rparr>)\<rparr>"

definition stamp_world :: world where
  "stamp_world =
     snd (project_setattr example_runtime (item_init (initial_world Map.empty) 0 (Some 0)) 0
            ''stamp'' (ItemRef 0))"

section \<open>Basic facts\<close>

lemma projects_emit: "projects (emit w p) = projects w"
  by (simp add: emit_def Let_def)

lemma items_emit: "items (emit w p) = items w"
  by (simp add: emit_def Let_def)

lemma files_emit: "files (emit w p) = files w"
  by (simp add: emit_def Let_def)

lemma p_value_put_value: "p_value (projects (put_value w p d) q) = (if q = p then d else p_value (projects w q))"
  by (simp add: put_value_def)

lemma items_put_value: "items (put_value w p d) = items w"
  by (simp add: put_value_def)

lemma trace_put_value: "trace (put_value w p d) = trace w"
  by (simp add: put_value_def)

lemma p_subscribers_put_value: "p_subscribers (projects (put_value w p d) q) = p_subscribers (projects w q)"
  by (simp add: put_value_def)

lemma p_value_set_property:
  "p_value (projects (set_property w p n v) q) =
     (if q = p then fmupd n v (p_value (projects w p)) else p_value (projects w q))"
proof -
  have "m ++\<^sub>f fmupd n v fmempty = fmupd n v m" for m :: pydict
    by (rule fmap_ext) simp
  then show ?thesis
    by (simp add: set_property_def projects_emit p_value_put_value project_get_value_def)
qed

lemma items_set_property: "items (set_property w p n v) = items w"
  by (simp add: set_property_def items_emit items_put_value)

lemma trace_emit:
  "trace (emit w p) =
     trace w @ Emit p (p_value (projects w p))
       # map (\<lambda>l. Call l (Some (p_value (projects w p)))) (p_subscribers (projects w p))"
  by (simp add: emit_def Let_def)

lemma emits_append: "emits (xs @ ys) = emits xs @ emits ys"
  by (induction xs rule: emits.induct) simp_all

lemma calls_append: "calls (xs @ ys) = calls xs @ calls ys"
  by (induction xs rule: calls.induct) simp_all

lemma emits_map_Call: "emits (map (\<lambda>l. Call l a) ls) = []"
  by (induction ls) simp_all

lemma calls_map_Call: "calls (map (\<lambda>l. Call l a) ls) = map (\<lambda>l. (l, a)) ls"
  by (induction ls) simp_all

lemma fmadd_single: "m ++\<^sub>f fmupd n v fmempty = fmupd n v m"
  by (rule fmap_ext) simp

lemma p_value_project_set_value:
  "p_value (projects (project_set_value w p a) q) =
     (if q = p then (case a of Fresh d \<Rightarrow> d | Own \<Rightarrow> fmempty) else p_value (projects w q))"
  by (cases a)
     (simp_all add: project_set_value_def Let_def projects_emit p_value_put_value
        project_get_value_def)

lemma trace_project_set_value:
  "trace (project_set_value w p a) =
     trace w @ Emit p (case a of Fresh d \<Rightarrow> d | Own \<Rightarrow> fmempty)
       # map (\<lambda>l. Call l (Some (case a of Fresh d \<Rightarrow> d | Own \<Rightarrow> fmempty)))
           (p_subscribers (projects w p))"
  by (cases a)
     (simp_all add: project_set_value_def Let_def trace_emit p_value_put_value
        p_subscribers_put_value trace_put_value project_get_value_def)

lemma trace_set_property:
  "trace (set_property w p n v) =
     trace w @ Emit p (fmupd n v (p_value (projects w p)))
       # map (\<lambda>l. Call l (Some (fmupd n v (p_value (projects w p)))))
           (p_subscribers (projects w p))"
  by (simp add: set_property_def trace_emit p_value_put_value p_subscribers_put_value
      trace_put_value project_get_value_def fmadd_single)

lemma get_values_loop_map: "get_values_loop cls res = res @ map m_value cls"
  by (induction cls arbitrary: res) simp_all

lemma get_values_list_map: "get_values_list cls = map m_value cls"
  by (simp add: get_values_list_def get_values_loop_map)

lemma get_key_by_value_find:
  "get_key_by_value cls v d =
     (case find (\<lambda>s. m_value s = v) cls of None \<Rightarrow> Default d | Some m \<Rightarrow> Member m)"
  by (induction cls) simp_all

lemma item_get_set: "item_get_value (item_set_value w x v) x = v"
proof (cases "i_parent (items w x)")
  case None
  then show ?thesis
    by (simp add: item_set_value_def item_get_value_def check_change_def)
next
  case (Some p)
  then show ?thesis
    by (simp add: item_set_value_def item_get_value_def items_set_property get_property_def
        project_get_value_def p_value_set_property)
qed

lemma p_value_save: "p_value (projects (snd (save w p)) q) = p_value (projects w q)"
  by (simp add: save_def Let_def split: sum.split option.split fs_entry.split)

lemma items_project_set_value: "items (project_set_value w p a) = items w"
  by (simp add: project_set_value_def Let_def items_emit items_put_value)

lemma p_value_assign_name: "projects (assign_name w a key) = projects w"
  by (cases a) (simp_all add: assign_name_def)

lemma items_value_assign:
  "items (snd (value_assign upd w p a)) = items w"
proof (cases "\<exists>d. a = Plain (PDict d)")
  case True
  then show ?thesis
    by (auto simp add: value_setter_def items_project_set_value)
next
  case False
  show ?thesis
  proof (cases "a = OwnValue")
    case True
    then show ?thesis
      by (simp add: value_setter_def items_project_set_value)
  next
    case False
    with \<open>\<not> (\<exists>d. a = Plain (PDict d))\<close>
    have "value_assign upd w p a = set_value_other upd w p a"
      by (cases "(upd, w, p, a)" rule: value_assign.cases) simp_all
    then show ?thesis
      by (simp add: set_value_other_def Let_def items_emit items_put_value split: option.split)
  qed
qed

lemma items_project_setattr:
  "items (snd (project_setattr rt w p key a)) = items (assign_name w a key)"
  by (simp add: project_setattr_def super_setattr_def items_value_assign)

lemma p_value_project_setattr:
  "key \<noteq> ''value'' \<Longrightarrow> key \<noteq> ''__dict__'' \<Longrightarrow>
     p_value (projects (snd (project_setattr rt w p key a)) q) = p_value (projects w q)"
  by (simp add: project_setattr_def super_setattr_def p_value_assign_name)

lemma p_value_item_init: "p_value (projects (item_init w i par) q) = p_value (projects w q)"
  by (cases par) (simp_all add: item_init_def connect_def Let_def)

lemma p_value_item_set_value:
  "p_value (projects (item_set_value w i v) q) =
     (if i_parent (items w i) = Some q
      then fmupd (i_name (items w i)) v (p_value (projects w q))
      else p_value (projects w q))"
  by (cases "i_parent (items w i)")
     (auto simp add: item_set_value_def check_change_def p_value_set_property)

lemma step_keeps_keys:
  "\<not> bulk_op x \<Longrightarrow> \<not> rebinds_method x \<Longrightarrow>
     fmdom (p_value (projects w p)) |\<subseteq>| fmdom (p_value (projects (step rt p w x) p))"
  by (cases x)
     (auto simp add: p_value_set_property p_value_save p_value_project_setattr
        p_value_item_init p_value_item_set_value)

lemma run_keeps_keys:
  "list_all (\<lambda>x. \<not> bulk_op x \<and> \<not> rebinds_method x) ops \<Longrightarrow>
     fmdom (p_value (projects w p)) |\<subseteq>| fmdom (p_value (projects (run rt p w ops) p))"
proof (induction ops arbitrary: w)
  case Nil
  then show ?case by simp
next
  case (Cons x xs)
  then have "fmdom (p_value (projects w p)) |\<subseteq>| fmdom (p_value (projects (step rt p w x) p))"
    and "fmdom (p_value (projects (step rt p w x) p))
           |\<subseteq>| fmdom (p_value (projects (run rt p (step rt p w x) xs) p))"
    by (simp_all add: step_keeps_keys)
  then show ?case by auto
qed

lemma run_property_value:
  "list_all property_op ops \<Longrightarrow> fmlookup (p_value (projects w p)) k = Some v \<Longrightarrow>
     fmlookup (p_value (projects (run rt p w ops) p)) k
       = Some (case last_write k ops of None \<Rightarrow> v | Some v' \<Rightarrow> v')"
proof (induction ops arbitrary: w v)
  case Nil
  then show ?case by simp
next
  case (Cons x xs)
  show ?case
  proof (cases x)
    case (SetProperty n u)
    let ?w = "set_property w p n u"
    have look: "fmlookup (p_value (projects ?w p)) k = Some (if n = k then u else v)"
      using Cons.prems(2) by (simp add: p_value_set_property)
    have "fmlookup (p_value (projects (run rt p ?w xs) p)) k
            = Some (case last_write k xs of None \<Rightarrow> (if n = k then u else v) | Some v' \<Rightarrow> v')"
      using Cons.IH [OF _ look] Cons.prems(1) by simp
    then show ?thesis
      using SetProperty by (simp split: option.split)
  next
    case (GetProperty n)
    then show ?thesis
      using Cons.IH [of w v] Cons.prems by simp
  qed (use Cons.prems in simp_all)
qed

lemma stamp_world_item:
  "i_parent (items stamp_world 0) = Some 0" "i_name (items stamp_world 0) = ''stamp''"
  by (simp_all add: stamp_world_def items_project_setattr assign_name_def item_init_def
      connect_def initial_world_def Let_def)

section \<open>Delegation\<close>

text \<open>
  C1. Delegation identity: for a tree item \<open>x\<close> with parent \<open>p\<close> and name \<open>n\<close>, after
  \<open>x.set_value(v)\<close> the parent's backing dictionary maps \<open>n\<close> to \<open>v\<close>, so
  \<open>p.get_property(n)\<close> is \<open>v\<close>, and a subsequent \<open>x.get_value()\<close> is \<open>v\<close>.
\<close>

theorem delegation_identity:
  assumes "i_parent (items w x) = Some p" and "i_name (items w x) = n"
  shows "fmlookup (project_get_value (item_set_value w x v) p) n = Some v
       \<and> get_property (item_set_value w x v) p n = v
       \<and> item_get_value (item_set_value w x v) x = v"
proof -
  let ?w = "item_set_value w x v"
  have sv: "?w = set_property w p n v"
    using assms by (simp add: item_set_value_def)
  have look: "fmlookup (project_get_value ?w p) n = Some v"
    by (simp add: sv project_get_value_def p_value_set_property)
  have gp: "get_property ?w p n = v"
    using look by (simp add: get_property_def)
  have "i_parent (items ?w x) = Some p" and "i_name (items ?w x) = n"
    using assms by (simp_all add: sv items_set_property)
  then have "item_get_value ?w x = get_property ?w p n"
    by (simp add: item_get_value_def)
  with look gp show ?thesis by simp
qed

theorem delegation_identity_witness:
  "i_parent (items stamp_world 0) = Some 0
   \<and> i_name (items stamp_world 0) = ''stamp''
   \<and> fmlookup (project_get_value (item_set_value stamp_world 0 (PStr ''x'')) 0) ''stamp''
       = Some (PStr ''x'')
   \<and> get_property (item_set_value stamp_world 0 (PStr ''x'')) 0 ''stamp'' = PStr ''x''
   \<and> item_get_value (item_set_value stamp_world 0 (PStr ''x'')) 0 = PStr ''x''"
  using stamp_world_item
    delegation_identity [OF stamp_world_item, of "PStr ''x''"]
  by simp

section \<open>Bulk replacement and notification\<close>

text \<open>
  C3. Bulk replace isolates: \<open>set_value(d)\<close> on a document root removes every key stored
  before and repopulates only from \<open>d\<close>, so afterwards the backing dictionary is \<open>d\<close>
  and \<open>get_property\<close> answers from \<open>d\<close> alone (when the argument is the backing dictionary
  itself, it has been emptied and the result is empty); the replacement makes exactly one
  call of \<open>changed.emit\<close>, with the new dictionary. In particular after
  \<open>set_value({"a": 1})\<close> and then \<open>set_value({"b": 2})\<close>, \<open>get_property("a")\<close> is
  \<open>None\<close> and \<open>get_property("b")\<close> is \<open>2\<close>.
\<close>

theorem bulk_replace_isolates:
  "project_get_value (project_set_value w p (Fresh d)) p = d
   \<and> get_property (project_set_value w p (Fresh d)) p k
       = (case fmlookup d k of None \<Rightarrow> PNone | Some v \<Rightarrow> v)
   \<and> project_get_value (project_set_value w p Own) p = fmempty
   \<and> emits (trace (project_set_value w p a))
       = emits (trace w) @ [(p, project_get_value (project_set_value w p a) p)]
   \<and> get_property
        (project_set_value (project_set_value w p (Fresh (fmupd ''a'' (PInt 1) fmempty))) p
           (Fresh (fmupd ''b'' (PInt 2) fmempty))) p ''a'' = PNone
   \<and> get_property
        (project_set_value (project_set_value w p (Fresh (fmupd ''a'' (PInt 1) fmempty))) p
           (Fresh (fmupd ''b'' (PInt 2) fmempty))) p ''b'' = PInt 2"
  by (simp add: project_get_value_def get_property_def p_value_project_set_value
      trace_project_set_value emits_append emits_map_Call)

text \<open>
  C4. Whole-dictionary notification on a single-key write: \<open>set_property(n, v)\<close> upserts
  the key and then emits exactly one change notification whose payload is the whole updated
  dictionary; each subscriber is invoked once per subscription, in subscription order, with
  that payload, and the trace of the returned world already holds these invocations. For a
  root with two attached children, \<open>set_property("x", 1)\<close> produces the emission followed
  by the first child's and then the second child's \<open>check_change\<close>.
\<close>

theorem set_property_notifies:
  "project_get_value (set_property w p n v) p = fmupd n v (project_get_value w p)
   \<and> trace (set_property w p n v)
       = trace w @ Emit p (fmupd n v (project_get_value w p))
           # map (\<lambda>l. Call l (Some (fmupd n v (project_get_value w p))))
               (p_subscribers (projects w p))
   \<and> emits (trace (set_property w p n v))
       = emits (trace w) @ [(p, fmupd n v (project_get_value w p))]
   \<and> calls (trace (set_property w p n v))
       = calls (trace w)
           @ map (\<lambda>l. (l, Some (fmupd n v (project_get_value w p)))) (p_subscribers (projects w p))
   \<and> trace (set_property (item_init (item_init (initial_world Map.empty) 1 (Some 0)) 2 (Some 0))
               0 ''x'' (PInt 1))
       = [Emit 0 (fmupd ''x'' (PInt 1) fmempty),
          Call (CheckChange 1) (Some (fmupd ''x'' (PInt 1) fmempty)),
          Call (CheckChange 2) (Some (fmupd ''x'' (PInt 1) fmempty))]"
proof -
  have conc:
    "trace (set_property (item_init (item_init (initial_world Map.empty) 1 (Some 0)) 2 (Some 0))
               0 ''x'' (PInt 1))
       = [Emit 0 (fmupd ''x'' (PInt 1) fmempty),
          Call (CheckChange 1) (Some (fmupd ''x'' (PInt 1) fmempty)),
          Call (CheckChange 2) (Some (fmupd ''x'' (PInt 1) fmempty))]"
    by (simp add: trace_set_property item_init_def connect_def initial_world_def
        new_project_def Let_def)
  have gen:
    "project_get_value (set_property w p n v) p = fmupd n v (project_get_value w p)"
    "trace (set_property w p n v)
       = trace w @ Emit p (fmupd n v (project_get_value w p))
           # map (\<lambda>l. Call l (Some (fmupd n v (project_get_value w p))))
               (p_subscribers (projects w p))"
    "emits (trace (set_property w p n v))
       = emits (trace w) @ [(p, fmupd n v (project_get_value w p))]"
    "calls (trace (set_property w p n v))
       = calls (trace w)
           @ map (\<lambda>l. (l, Some (fmupd n v (project_get_value w p)))) (p_subscribers (projects w p))"
    by (simp_all add: project_get_value_def p_value_set_property trace_set_property emits_append
        emits_map_Call calls_append calls_map_Call)
  from gen conc show ?thesis by blast
qed

section \<open>Loading\<close>

text \<open>
  C2. Load validation: for a project whose target file name is defined, \<open>load\<close> fails
  with \<open>FileNotFoundError\<close> (NotFound) when the file does not exist, and with
  \<open>AssertionError\<close> (the spec's InvalidFormat) when the parsed top-level value is not a
  dictionary, or is a dictionary that lacks the sentinel key or maps it to a value other
  than the expected one.
\<close>

theorem load_validation:
  assumes "filename (projects w p) = Inr f"
  shows "(files w f = None \<longrightarrow> fst (load w p ck cv) = Some FileNotFoundError)
       \<and> (files w f = Some (File (Json obj)) \<and> (\<forall>d. obj \<noteq> PDict d)
            \<longrightarrow> fst (load w p ck cv) = Some AssertionError)
       \<and> (files w f = Some (File (Json (PDict d)))
            \<and> (fmlookup d ck = None \<or> (\<exists>v. fmlookup d ck = Some v \<and> v \<noteq> PStr cv))
            \<longrightarrow> fst (load w p ck cv) = Some AssertionError)"
proof (intro conjI impI)
  assume "files w f = None"
  with assms show "fst (load w p ck cv) = Some FileNotFoundError"
    by (simp add: load_def)
next
  assume "files w f = Some (File (Json obj)) \<and> (\<forall>d. obj \<noteq> PDict d)"
  with assms show "fst (load w p ck cv) = Some AssertionError"
    by (cases obj) (simp_all add: load_def)
next
  assume "files w f = Some (File (Json (PDict d)))
            \<and> (fmlookup d ck = None \<or> (\<exists>v. fmlookup d ck = Some v \<and> v \<noteq> PStr cv))"
  with assms show "fst (load w p ck cv) = Some AssertionError"
    by (auto simp add: load_def)
qed

theorem load_validation_witness:
  "fst (load (initial_world Map.empty) 0 ''kind'' ''project'') = Some FileNotFoundError
   \<and> fst (load (initial_world [''conf/project.json'' \<mapsto> File (Json (PList []))]) 0
             ''kind'' ''project'') = Some AssertionError
   \<and> fst (load (initial_world [''conf/project.json'' \<mapsto> File (Json (PDict fmempty))]) 0
             ''kind'' ''project'') = Some AssertionError
   \<and> fst (load (initial_world [''conf/project.json'' \<mapsto>
                    File (Json (PDict (fmupd ''kind'' (PStr ''other'') fmempty)))]) 0
             ''kind'' ''project'') = Some AssertionError"
proof -
  have fn: "filename (projects (initial_world fs) 0) = Inr ''conf/project.json''" for fs
    by (simp add: filename_def initial_world_def new_project_def os_path_join_def)
  show ?thesis
    using load_validation [OF fn, of Map.empty "''kind''" "''project''" "PNone" fmempty]
      load_validation [OF fn, of "[''conf/project.json'' \<mapsto> File (Json (PList []))]"
        "''kind''" "''project''" "PList []" fmempty]
      load_validation [OF fn, of "[''conf/project.json'' \<mapsto> File (Json (PDict fmempty))]"
        "''kind''" "''project''" "PNone" fmempty]
      load_validation [OF fn, of "[''conf/project.json'' \<mapsto>
                    File (Json (PDict (fmupd ''kind'' (PStr ''other'') fmempty)))]"
        "''kind''" "''project''" "PNone" "fmupd ''kind'' (PStr ''other'') fmempty"]
    by (simp add: initial_world_def)
qed

text \<open>
  C9. Load is atomic on failure: whenever \<open>load\<close> raises, the world it leaves behind is
  the world it started from; in particular the backing dictionary is unchanged and no change
  notification has been emitted.
\<close>

theorem load_failure_atomic:
  assumes "fst (load w p ck cv) = Some e"
  shows "snd (load w p ck cv) = w
       \<and> project_get_value (snd (load w p ck cv)) p = project_get_value w p
       \<and> trace (snd (load w p ck cv)) = trace w"
proof -
  have "snd (load w p ck cv) = w"
    using assms
    by (auto simp add: load_def
        split: sum.splits option.splits fs_entry.splits file_content.splits pyval.splits
          if_splits)
  then show ?thesis by simp
qed

theorem load_failure_atomic_witness:
  "fst (load (set_property (initial_world [''conf/project.json'' \<mapsto> File NotJson]) 0 ''a'' (PInt 1))
          0 ''kind'' ''project'') = Some ValueError
   \<and> snd (load (set_property (initial_world [''conf/project.json'' \<mapsto> File NotJson]) 0 ''a'' (PInt 1))
          0 ''kind'' ''project'')
       = set_property (initial_world [''conf/project.json'' \<mapsto> File NotJson]) 0 ''a'' (PInt 1)"
proof -
  let ?w = "set_property (initial_world [''conf/project.json'' \<mapsto> File NotJson]) 0 ''a'' (PInt 1)"
  have fl: "fst (load ?w 0 ''kind'' ''project'') = Some ValueError"
    by (simp add: load_def filename_def set_property_def emit_def put_value_def Let_def
        initial_world_def new_project_def os_path_join_def)
  show ?thesis
    using fl load_failure_atomic [OF fl] by simp
qed

section \<open>Names of items\<close>

text \<open>
  C5. Synchronous name assignment: assigning an item as attribute \<open>key\<close> of a document
  root sets the item's name to \<open>key\<close> before the attribute is bound. The name is set
  whatever \<open>key\<close> is; when \<open>key\<close> is not a property of the class the assignment then
  binds the attribute and returns; when \<open>key\<close> is a property without a setter the binding
  raises, and the item has been renamed all the same, which shows the order. Every read and
  write of the item that follows uses \<open>key\<close> (for a \<open>key\<close> that does not hide a method
  of the root).
\<close>

theorem setattr_assigns_name:
  "i_name (items (snd (project_setattr rt w p key (ItemRef i))) i) = key
   \<and> (key \<notin> set readonly_properties \<and> key \<notin> set inherited_properties
        \<and> key \<notin> set special_names \<and> key \<noteq> ''value''
        \<longrightarrow> fst (project_setattr rt w p key (ItemRef i)) = None
          \<and> p_attrs (projects (snd (project_setattr rt w p key (ItemRef i))) p) key
              = Some (ItemRef i))
   \<and> (key \<in> set readonly_properties
        \<longrightarrow> fst (project_setattr rt w p key (ItemRef i)) = Some AttributeError
          \<and> projects (snd (project_setattr rt w p key (ItemRef i))) = projects w)
   \<and> (key \<notin> set method_names
        \<longrightarrow> item_get_value (snd (project_setattr rt w p key (ItemRef i))) i
            = (case i_parent (items w i) of
                 Some q \<Rightarrow> get_property (snd (project_setattr rt w p key (ItemRef i))) q key
               | None \<Rightarrow> i_self_storage (items w i))
          \<and> item_set_value (snd (project_setattr rt w p key (ItemRef i))) i v
            = (case i_parent (items w i) of
                 Some q \<Rightarrow> set_property (snd (project_setattr rt w p key (ItemRef i))) q key v
               | None \<Rightarrow>
                   check_change
                     ((snd (project_setattr rt w p key (ItemRef i)))
                        \<lparr>items := (items (snd (project_setattr rt w p key (ItemRef i))))
                           (i := (items (snd (project_setattr rt w p key (ItemRef i))) i)
                                   \<lparr>i_self_storage := v\<rparr>)\<rparr>)
                     i))"
proof -
  let ?w = "snd (project_setattr rt w p key (ItemRef i))"
  have it: "items ?w = (items w)(i := (items w i)\<lparr>i_name := key\<rparr>)"
    by (simp add: items_project_setattr assign_name_def)
  have nm: "i_name (items ?w i) = key"
    by (simp add: it)
  have plain: "fst (project_setattr rt w p key (ItemRef i)) = None
          \<and> p_attrs (projects ?w p) key = Some (ItemRef i)"
    if "key \<notin> set readonly_properties \<and> key \<notin> set inherited_properties
        \<and> key \<notin> set special_names \<and> key \<noteq> ''value''"
    using that by (simp add: project_setattr_def super_setattr_def special_names_def)
  have ro: "fst (project_setattr rt w p key (ItemRef i)) = Some AttributeError
          \<and> projects ?w = projects w"
    if "key \<in> set readonly_properties"
    using that by (simp add: project_setattr_def super_setattr_def assign_name_def)
  have gv: "item_get_value ?w i
       = (case i_parent (items w i) of
            Some q \<Rightarrow> get_property ?w q key
          | None \<Rightarrow> i_self_storage (items w i))"
    by (simp add: item_get_value_def it split: option.split)
  have sv: "item_set_value ?w i v
       = (case i_parent (items w i) of
            Some q \<Rightarrow> set_property ?w q key v
          | None \<Rightarrow>
              check_change (?w\<lparr>items := (items ?w)(i := (items ?w i)\<lparr>i_self_storage := v\<rparr>)\<rparr>) i)"
    by (simp add: item_set_value_def it split: option.split)
  from nm plain ro gv sv show ?thesis by blast
qed

theorem setattr_assigns_name_witness:
  "''title'' \<notin> set readonly_properties \<and> ''title'' \<notin> set inherited_properties
   \<and> ''title'' \<notin> set special_names \<and> ''title'' \<noteq> ''value''
   \<and> ''title'' \<notin> set method_names
   \<and> item_get_value
        (snd (project_setattr example_runtime (item_init (initial_world Map.empty) 0 (Some 0)) 0
                ''title'' (ItemRef 0))) 0
       = get_property
           (snd (project_setattr example_runtime (item_init (initial_world Map.empty) 0 (Some 0)) 0
                   ''title'' (ItemRef 0))) 0 ''title''
   \<and> fst (project_setattr example_runtime (item_init (initial_world Map.empty) 0 (Some 0)) 0
            ''title'' (ItemRef 0)) = None
   \<and> i_name (items (snd (project_setattr example_runtime
                            (item_init (initial_world Map.empty) 0 (Some 0)) 0
                            ''title'' (ItemRef 0))) 0) = ''title''
   \<and> ''name'' \<in> set readonly_properties
   \<and> fst (project_setattr example_runtime (item_init (initial_world Map.empty) 0 (Some 0)) 0
            ''name'' (ItemRef 0)) = Some AttributeError
   \<and> i_name (items (snd (project_setattr example_runtime
                            (item_init (initial_world Map.empty) 0 (Some 0)) 0
                            ''name'' (ItemRef 0))) 0) = ''name''"
  using setattr_assigns_name [of example_runtime "item_init (initial_world Map.empty) 0 (Some 0)" 0
      "''title''" 0 PNone]
    setattr_assigns_name [of example_runtime "item_init (initial_world Map.empty) 0 (Some 0)" 0
      "''name''" 0 PNone]
  by (simp add: readonly_properties_def inherited_properties_def method_names_def
      special_names_def item_init_def connect_def initial_world_def Let_def)

section \<open>Enum\<close>

text \<open>
  C6. Enum fallback: for a raw string that is not among the associated strings of the enum's
  members, \<open>get_key_by_value\<close> returns the default its caller supplies, and
  \<open>get_value\<close> of the enum item's property, which supplies none, returns the default
  \<open>None\<close>; neither raises. For a raw string that is the associated string of a member,
  both return a member with that string.
\<close>

theorem enum_fallback:
  "(text \<notin> set (get_values_list cls)
      \<longrightarrow> get_key_by_value cls text d = Default d
        \<and> EnumProperty_get_value (Some cls) text = Inr (Default PNone))
   \<and> (text \<in> set (get_values_list cls)
      \<longrightarrow> (\<exists>m \<in> set cls. m_value m = text
             \<and> get_key_by_value cls text d = Member m
             \<and> EnumProperty_get_value (Some cls) text = Inr (Member m)))"
proof (cases "find (\<lambda>s. m_value s = text) cls")
  case None
  then have "text \<notin> set (get_values_list cls)"
    by (auto simp add: get_values_list_map find_None_iff)
  with None show ?thesis
    by (simp add: EnumProperty_get_value_def get_key_by_value_find)
next
  case (Some m)
  then have "m \<in> set cls" and "m_value m = text"
    by (auto simp add: find_Some_iff)
  moreover from this have "text \<in> set (get_values_list cls)"
    by (auto simp add: get_values_list_map)
  ultimately show ?thesis
    using Some by (auto simp add: EnumProperty_get_value_def get_key_by_value_find)
qed

theorem enum_fallback_witness:
  "get_key_by_value
      [\<lparr>m_name = ''RED'', m_value = ''red''\<rparr>, \<lparr>m_name = ''GREEN'', m_value = ''green''\<rparr>]
      ''blue'' (PStr ''fallback'') = Default (PStr ''fallback'')
   \<and> EnumProperty_get_value
      (Some [\<lparr>m_name = ''RED'', m_value = ''red''\<rparr>, \<lparr>m_name = ''GREEN'', m_value = ''green''\<rparr>])
      ''blue'' = Inr (Default PNone)
   \<and> EnumProperty_get_value
      (Some [\<lparr>m_name = ''RED'', m_value = ''red''\<rparr>, \<lparr>m_name = ''GREEN'', m_value = ''green''\<rparr>])
      ''green'' = Inr (Member \<lparr>m_name = ''GREEN'', m_value = ''green''\<rparr>)"
  using enum_fallback [of "''blue''"
      "[\<lparr>m_name = ''RED'', m_value = ''red''\<rparr>, \<lparr>m_name = ''GREEN'', m_value = ''green''\<rparr>]"
      "PStr ''fallback''"]
    enum_fallback [of "''green''"
      "[\<lparr>m_name = ''RED'', m_value = ''red''\<rparr>, \<lparr>m_name = ''GREEN'', m_value = ''green''\<rparr>]"
      "PNone"]
  by (simp add: get_values_list_def)

text \<open>
  C10. Enum member equality compares the member's name: \<open>m == s\<close> holds exactly when the
  name of \<open>m\<close> is \<open>s\<close>; a member whose name differs from its associated string is not
  equal to that string.
\<close>

theorem enum_eq_compares_name:
  "enum_eq m s = (m_name m = s) \<and> (m_name m \<noteq> m_value m \<longrightarrow> \<not> enum_eq m (m_value m))"
  by (simp add: enum_eq_def)

theorem enum_eq_compares_name_witness:
  "m_name \<lparr>m_name = ''RED'', m_value = ''red''\<rparr> \<noteq> m_value \<lparr>m_name = ''RED'', m_value = ''red''\<rparr>
   \<and> \<not> enum_eq \<lparr>m_name = ''RED'', m_value = ''red''\<rparr> ''red''
   \<and> enum_eq \<lparr>m_name = ''RED'', m_value = ''red''\<rparr> ''RED''"
  using enum_eq_compares_name [of "\<lparr>m_name = ''RED'', m_value = ''red''\<rparr>" "''RED''"]
  by simp

section \<open>Timestamp\<close>

text \<open>
  C7. Timestamp read with side effect. As stated, every read of the timestamp item's value
  would return the freshly formatted current time. It does not: \<open>get_value\<close> of a
  timestamp item is the inherited one, which returns the stored raw string. With
  \<open>2000-01-01 00:00:00\<close> stored and the clock at \<open>2026-11-03 12:00:00\<close>, the read returns
  the former.
\<close>

theorem timestamp_read_counterexample:
  "item_get_value (item_set_value stamp_world 0 (PStr ''2000-01-01 00:00:00'')) 0
     = PStr ''2000-01-01 00:00:00''
   \<and> item_get_value (item_set_value stamp_world 0 (PStr ''2000-01-01 00:00:00'')) 0
     \<noteq> PStr (example_clock ''%Y-%m-%d %H:%M:%S'')"
  by (simp add: item_get_set example_clock_def)

text \<open>
  C7, as the code has it: the current time is recomputed and stored only by
  \<open>TimePointProperty.update\<close>, which formats it with the configured pattern and stores it
  through the item's \<open>set_value\<close>; after \<open>update\<close> the item's stored raw string is that
  time (in the parent's backing dictionary when the item has a parent) and \<open>get_value\<close>
  returns it. A read returns what was stored last and stores nothing.
\<close>

theorem timestamp_update_persists:
  "TimePointProperty_update strftime w (TimePointItem_time x fmt)
       = item_set_value w x (PStr (strftime fmt))
   \<and> item_get_value (TimePointProperty_update strftime w (TimePointItem_time x fmt)) x
       = PStr (strftime fmt)
   \<and> (i_parent (items w x) = Some p
        \<longrightarrow> fmlookup
              (project_get_value (TimePointProperty_update strftime w (TimePointItem_time x fmt)) p)
              (i_name (items w x)) = Some (PStr (strftime fmt)))
   \<and> item_get_value (item_set_value w x v) x = v"
  by (simp add: TimePointProperty_update_def StringProperty_set_value_def TimePointItem_time_def
      item_get_set)
    (simp add: item_set_value_def project_get_value_def p_value_set_property)

theorem timestamp_update_persists_witness:
  "i_parent (items stamp_world 0) = Some 0
   \<and> fmlookup
       (project_get_value
         (TimePointProperty_update example_clock stamp_world
            (TimePointItem_time 0 ''%Y-%m-%d %H:%M:%S'')) 0)
       ''stamp'' = Some (PStr ''2026-11-03 12:00:00'')"
proof -
  have par: "i_parent (items stamp_world 0) = Some 0"
    and nam: "i_name (items stamp_world 0) = ''stamp''"
    by (rule stamp_world_item)+
  have "fmlookup
       (project_get_value
         (TimePointProperty_update example_clock stamp_world
            (TimePointItem_time 0 ''%Y-%m-%d %H:%M:%S'')) 0)
       (i_name (items stamp_world 0)) = Some (PStr (example_clock ''%Y-%m-%d %H:%M:%S''))"
    using par
      timestamp_update_persists [of example_clock stamp_world 0 "''%Y-%m-%d %H:%M:%S''" 0]
    by blast
  with par show ?thesis
    by (simp only: nam example_clock_def)
qed

section \<open>Key retention\<close>

text \<open>
  C8. Key retention of the document root: after \<open>set_property(k, v)\<close>, any further
  sequence of \<open>set_property\<close> and \<open>get_property\<close> calls leaves \<open>k\<close> in the backing
  dictionary with the value most recently written to it; and across any sequence of
  operations none of which reaches \<open>set_value\<close> (the call itself, a \<open>load\<close>, or an
  assignment to the attribute \<open>value\<close>), every key of the backing dictionary stays in it.
  Sequences that hide a method of the root or replace its instance dictionary are left out.
\<close>

theorem key_retention:
  "(list_all property_op ops
      \<longrightarrow> fmlookup (project_get_value (run rt p (set_property w p k v) ops) p) k
            = Some (case last_write k ops of None \<Rightarrow> v | Some v' \<Rightarrow> v'))
   \<and> (list_all (\<lambda>x. \<not> bulk_op x \<and> \<not> rebinds_method x) ops'
      \<longrightarrow> fmdom (project_get_value w p) |\<subseteq>| fmdom (project_get_value (run rt p w ops') p))"
proof (intro conjI impI)
  assume ops: "list_all property_op ops"
  have "fmlookup (p_value (projects (set_property w p k v) p)) k = Some v"
    by (simp add: p_value_set_property)
  from run_property_value [OF ops this]
  show "fmlookup (project_get_value (run rt p (set_property w p k v) ops) p) k
            = Some (case last_write k ops of None \<Rightarrow> v | Some v' \<Rightarrow> v')"
    by (simp add: project_get_value_def)
next
  assume "list_all (\<lambda>x. \<not> bulk_op x \<and> \<not> rebinds_method x) ops'"
  then show "fmdom (project_get_value w p) |\<subseteq>| fmdom (project_get_value (run rt p w ops') p)"
    by (simp add: project_get_value_def run_keeps_keys)
qed

theorem key_retention_witness:
  "list_all property_op [GetProperty ''a'', SetProperty ''b'' (PInt 2), SetProperty ''a'' (PInt 3),
      GetProperty ''b'']
   \<and> fmlookup
       (project_get_value
          (run example_runtime 0 (set_property (initial_world Map.empty) 0 ''a'' (PInt 1))
             [GetProperty ''a'', SetProperty ''b'' (PInt 2), SetProperty ''a'' (PInt 3),
              GetProperty ''b'']) 0) ''a'' = Some (PInt 3)
   \<and> list_all (\<lambda>x. \<not> bulk_op x \<and> \<not> rebinds_method x) [ItemInit 1 (Some 0), Setattr ''t'' (ItemRef 1),
        ItemSetValue 1 (PStr ''x''), Save, Setattr ''name'' (Plain PNone),
        SetProperty ''b'' (PInt 2)]
   \<and> fmdom (project_get_value (set_property (initial_world Map.empty) 0 ''a'' (PInt 1)) 0)
       |\<subseteq>| fmdom (project_get_value
             (run example_runtime 0 (set_property (initial_world Map.empty) 0 ''a'' (PInt 1))
                [ItemInit 1 (Some 0), Setattr ''t'' (ItemRef 1),
                 ItemSetValue 1 (PStr ''x''), Save, Setattr ''name'' (Plain PNone),
                 SetProperty ''b'' (PInt 2)]) 0)"
  using key_retention [of "[GetProperty ''a'', SetProperty ''b'' (PInt 2), SetProperty ''a'' (PInt 3),
      GetProperty ''b'']" example_runtime 0 "initial_world Map.empty" "''a''" "PInt 1" "[]"]
    key_retention [of "[]" example_runtime 0 "set_property (initial_world Map.empty) 0 ''a'' (PInt 1)"
      "''a''" "PInt 1"
      "[ItemInit 1 (Some 0), Setattr ''t'' (ItemRef 1),
                 ItemSetValue 1 (PStr ''x''), Save, Setattr ''name'' (Plain PNone),
                 SetProperty ''b'' (PInt 2)]"]
  by (simp add: method_names_def)

end
